theory Spec2Isabelle
  imports Complex_Main "HOL-Library.Word"
begin

section \<open>The HTTP request tracer of lib/netext/tracer.go\<close>

text \<open>
  A \<open>Tracer\<close> receives the callbacks of net/http/httptrace, stores one wall-clock
  reading per callback and, in \<open>Done\<close>, derives a \<open>Trail\<close> of phase durations.
  The embedding is sequential: every hook is an atomic state transformer, so an
  interleaving of concurrent hook calls is a list of calls. The mutex around the
  error slice and the atomicity of compare-and-swap have no further content here.
\<close>

subsection \<open>Integers, durations and instants\<close>

text \<open>
  Go's \<open>int64\<close> is a 64-bit word: \<open>+\<close>, \<open>-\<close> and unary minus wrap around, \<open>sint\<close>
  reads the two's complement value. \<open>time.Duration\<close> is declared as \<open>int64\<close>
  (nanoseconds), so the conversion \<open>time.Duration(x)\<close> is the identity.
\<close>

type_synonym int64 = "64 word"
type_synonym Duration = int64

definition maxDuration :: Duration where
  "maxDuration = 9223372036854775807"

definition minDuration :: Duration where
  "minDuration = - 9223372036854775808"

text \<open>
  The package \<open>time\<close> belongs to Go's standard library. A \<open>time.Time\<close> is taken
  as the instant it denotes, counted in nanoseconds from the Unix epoch on the
  unbounded integer line (the range of \<open>time.Time\<close>, 64 bits of seconds, is far
  wider than any sum of an \<open>int64\<close> of nanoseconds and a clock reading).
  Following the documentation of the package: \<open>time.Unix(sec, nsec)\<close> is the
  instant \<open>sec\<close> seconds and \<open>nsec\<close> nanoseconds after the epoch; \<open>t.Add(d)\<close>
  is \<open>t + d\<close>; \<open>t.Sub(u)\<close> is \<open>t - u\<close>, and when that difference does not fit a
  \<open>Duration\<close> the maximum (or minimum) duration is returned instead.
\<close>

type_synonym Time = int

definition zeroTime :: Time where
  \<comment> \<open>the zero value of \<open>time.Time\<close>: January 1, year 1, 00:00:00 UTC\<close>
  "zeroTime = - 62135596800000000000"

definition time_Unix :: "int64 \<Rightarrow> int64 \<Rightarrow> Time" where
  "time_Unix sec nsec = sint sec * 1000000000 + sint nsec"

definition time_Add :: "Time \<Rightarrow> Duration \<Rightarrow> Time" where
  "time_Add t d = t + sint d"

definition time_Sub :: "Time \<Rightarrow> Time \<Rightarrow> Duration" where
  "time_Sub t u =
     (if t - u > sint maxDuration then maxDuration
      else if t - u < sint minDuration then minDuration
      else word_of_int (t - u))"

subsection \<open>Trail\<close>

text \<open>\<open>net.Addr\<close> is an interface: \<open>None\<close> is its nil value.\<close>

type_synonym Addr = "string option"

record Trail =
  StartTime :: Time
  EndTime :: Time
  Duration :: Duration
  Blocked :: Duration
  Connecting :: Duration
  TLSHandshaking :: Duration
  Sending :: Duration
  Waiting :: Duration
  Receiving :: Duration
  ConnReused :: bool
  ConnRemoteAddr :: Addr

text \<open>
  Modelled from the spec: the metrics of lib/metrics that \<open>Samples\<close> names
  (\<open>metrics.HTTPReqs\<close> and the seven \<open>metrics.HTTPReq...\<close>) are declared outside
  this file; the spec fixes them as request count, request duration, blocked,
  connecting, sending, waiting, receiving, TLS handshaking.
\<close>

datatype Metric =
    HTTPReqs
  | HTTPReqDuration
  | HTTPReqBlocked
  | HTTPReqConnecting
  | HTTPReqSending
  | HTTPReqWaiting
  | HTTPReqReceiving
  | HTTPReqTLSHandshaking

text \<open>
  \<open>stats.Sample\<close>, with the four fields the composite literals of \<open>Samples\<close>
  set. The sample value is a \<open>float64\<close>; the literal \<open>1\<close> is the real number 1,
  and the conversion \<open>stats.D\<close> of a duration, which lives in package stats, is a
  parameter \<open>D\<close> of \<open>Samples\<close>.
\<close>

record Sample =
  Metric :: Metric
  Time :: Time
  Tags :: "string \<rightharpoonup> string"
  Value :: real

definition Samples :: "(Duration \<Rightarrow> real) \<Rightarrow> Trail \<Rightarrow> (string \<rightharpoonup> string) \<Rightarrow> Sample list" where
  "Samples D tr tags =
     [\<lparr>Metric = HTTPReqs, Time = EndTime tr, Tags = tags, Value = 1\<rparr>,
      \<lparr>Metric = HTTPReqDuration, Time = EndTime tr, Tags = tags, Value = D (Duration tr)\<rparr>,
      \<lparr>Metric = HTTPReqBlocked, Time = EndTime tr, Tags = tags, Value = D (Blocked tr)\<rparr>,
      \<lparr>Metric = HTTPReqConnecting, Time = EndTime tr, Tags = tags, Value = D (Connecting tr)\<rparr>,
      \<lparr>Metric = HTTPReqSending, Time = EndTime tr, Tags = tags, Value = D (Sending tr)\<rparr>,
      \<lparr>Metric = HTTPReqWaiting, Time = EndTime tr, Tags = tags, Value = D (Waiting tr)\<rparr>,
      \<lparr>Metric = HTTPReqReceiving, Time = EndTime tr, Tags = tags, Value = D (Receiving tr)\<rparr>,
      \<lparr>Metric = HTTPReqTLSHandshaking, Time = EndTime tr, Tags = tags,
        Value = D (TLSHandshaking tr)\<rparr>]"

subsection \<open>Tracer\<close>

text \<open>
  Go's \<open>error\<close> is an interface: \<open>None\<close> is nil, \<open>Some m\<close> an error with message
  \<open>m\<close>. The slice \<open>protoErrors\<close> holds whatever \<open>addError\<close> was given.
\<close>

type_synonym error = "string option"

record Tracer =
  getConn :: int64
  connectStart :: int64
  connectDone :: int64
  tlsHandshakeStart :: int64
  tlsHandshakeDone :: int64
  gotConn :: int64
  wroteRequest :: int64
  gotFirstResponseByte :: int64
  connReused :: bool
  connRemoteAddr :: Addr
  protoErrors :: "error list"

definition zero_Tracer :: Tracer where
  \<comment> \<open>the zero value \<open>Tracer{}\<close>, the state of a tracer before any hook has run\<close>
  "zero_Tracer =
     \<lparr>getConn = 0, connectStart = 0, connectDone = 0, tlsHandshakeStart = 0,
      tlsHandshakeDone = 0, gotConn = 0, wroteRequest = 0, gotFirstResponseByte = 0,
      connReused = False, connRemoteAddr = None, protoErrors = []\<rparr>"

definition addError :: "error \<Rightarrow> Tracer \<Rightarrow> Tracer" where
  "addError err t = t\<lparr>protoErrors := protoErrors t @ [err]\<rparr>"

text \<open>
  \<open>atomic.CompareAndSwapInt64(addr, old, new)\<close> on a field: the field becomes
  \<open>new\<close> if it holds \<open>old\<close> and is left alone otherwise. The result is the new
  content of the field (the source ignores the boolean that Go returns).
\<close>

definition CompareAndSwapInt64 :: "int64 \<Rightarrow> int64 \<Rightarrow> int64 \<Rightarrow> int64" where
  "CompareAndSwapInt64 cur old new = (if cur = old then new else cur)"

text \<open>
  Every hook reads the clock through \<open>now()\<close>, which is
  \<open>time.Now().UnixNano()\<close>. The reading is the first argument \<open>now\<close> of the
  model of the hook. The arguments that a hook's body never reads (\<open>hostPort\<close>,
  \<open>network\<close>, \<open>addr\<close>, the TLS connection state) are left out.
\<close>

definition GetConn :: "int64 \<Rightarrow> Tracer \<Rightarrow> Tracer" where
  "GetConn now t = t\<lparr>getConn := now\<rparr>"

definition ConnectStart :: "int64 \<Rightarrow> Tracer \<Rightarrow> Tracer" where
  "ConnectStart now t = t\<lparr>connectStart := CompareAndSwapInt64 (connectStart t) 0 now\<rparr>"

definition ConnectDone :: "int64 \<Rightarrow> error \<Rightarrow> Tracer \<Rightarrow> Tracer" where
  "ConnectDone now err t =
     (let t = t\<lparr>connectDone := CompareAndSwapInt64 (connectDone t) 0 now\<rparr>
      in if err \<noteq> None then addError err t else t)"

definition TLSHandshakeStart :: "int64 \<Rightarrow> Tracer \<Rightarrow> Tracer" where
  "TLSHandshakeStart now t = t\<lparr>tlsHandshakeStart := now\<rparr>"

definition TLSHandshakeDone :: "int64 \<Rightarrow> error \<Rightarrow> Tracer \<Rightarrow> Tracer" where
  "TLSHandshakeDone now err t =
     (let t = t\<lparr>tlsHandshakeDone := now\<rparr>
      in if err \<noteq> None then addError err t else t)"

text \<open>
  \<open>httptrace.GotConnInfo\<close>. Its \<open>Conn\<close> is the connection that was obtained;
  of a connection the tracer only asks \<open>RemoteAddr()\<close>. The transport hands over
  an established connection, so \<open>Conn\<close> is a connection and not nil, as the
  receiver of every hook is a tracer and not nil.
\<close>

record Conn =
  RemoteAddr :: Addr

record GotConnInfo =
  Conn :: Conn
  Reused :: bool
  WasIdle :: bool
  IdleTime :: Duration

definition GotConn :: "int64 \<Rightarrow> GotConnInfo \<Rightarrow> Tracer \<Rightarrow> Tracer" where
  "GotConn now info t =
     (let t = t\<lparr>gotConn := now\<rparr>;
          t = t\<lparr>connReused := Reused info\<rparr>;
          t = t\<lparr>connRemoteAddr := RemoteAddr (Conn info)\<rparr>
      in if connReused t then
           (let t = t\<lparr>connectStart := CompareAndSwapInt64 (connectStart t) 0 now\<rparr>;
                t = t\<lparr>connectDone := CompareAndSwapInt64 (connectDone t) 0 now\<rparr>
            in t)
         else t)"

record WroteRequestInfo =
  Err :: error

definition WroteRequest :: "int64 \<Rightarrow> WroteRequestInfo \<Rightarrow> Tracer \<Rightarrow> Tracer" where
  "WroteRequest now info t =
     (let t = t\<lparr>wroteRequest := CompareAndSwapInt64 (wroteRequest t) 0 now\<rparr>
      in if Err info \<noteq> None then addError (Err info) t else t)"

definition GotFirstResponseByte :: "int64 \<Rightarrow> Tracer \<Rightarrow> Tracer" where
  "GotFirstResponseByte now t = t\<lparr>gotFirstResponseByte := now\<rparr>"

text \<open>
  \<open>Done\<close>, statement by statement. \<open>dn\<close> is the value of \<open>time.Now()\<close> that the
  first line of \<open>Done\<close> reads into the variable \<open>done\<close>.
\<close>

definition Done :: "Time \<Rightarrow> Tracer \<Rightarrow> Trail" where
  "Done dn t =
     (let trail = \<lparr>StartTime = zeroTime, EndTime = zeroTime, Duration = 0, Blocked = 0,
                   Connecting = 0, TLSHandshaking = 0, Sending = 0, Waiting = 0,
                   Receiving = 0, ConnReused = connReused t,
                   ConnRemoteAddr = connRemoteAddr t\<rparr>;
          trail = (if gotConn t \<noteq> 0 \<and> getConn t \<noteq> 0
                   then trail\<lparr>Blocked := gotConn t - getConn t\<rparr> else trail);
          trail = (if connectDone t \<noteq> 0 \<and> connectStart t \<noteq> 0
                   then trail\<lparr>Connecting := connectDone t - connectStart t\<rparr> else trail);
          trail = (if tlsHandshakeDone t \<noteq> 0 \<and> tlsHandshakeStart t \<noteq> 0
                   then trail\<lparr>TLSHandshaking := tlsHandshakeDone t - tlsHandshakeStart t\<rparr>
                   else trail);
          trail = (if wroteRequest t \<noteq> 0 then
                     (let trail = trail\<lparr>Sending := wroteRequest t - connectDone t\<rparr>;
                          trail = (if tlsHandshakeDone t \<noteq> 0
                                   then trail\<lparr>Sending := wroteRequest t - tlsHandshakeDone t\<rparr>
                                   else trail);
                          trail = (if gotFirstResponseByte t \<noteq> 0
                                   then trail\<lparr>Waiting := gotFirstResponseByte t - wroteRequest t\<rparr>
                                   else trail)
                      in trail)
                   else trail);
          trail = (if gotFirstResponseByte t \<noteq> 0
                   then trail\<lparr>Receiving := time_Sub dn (time_Unix 0 (gotFirstResponseByte t))\<rparr>
                   else trail);
          trail = trail\<lparr>EndTime := dn\<rparr>;
          trail = trail\<lparr>Duration := Sending trail + Waiting trail + Receiving trail\<rparr>;
          trail = trail\<lparr>StartTime := time_Add (EndTime trail) (- Duration trail)\<rparr>
      in trail)"

subsection \<open>The transport calling the hooks\<close>

text \<open>
  \<open>Trace\<close> hands the eight hooks to the HTTP transport as a
  \<open>httptrace.ClientTrace\<close>. One call of a hook by the transport is a \<open>hook_call\<close>,
  carrying the clock reading of that call and the hook's arguments; \<open>call\<close>
  dispatches it to the hook and \<open>calls\<close> runs a sequence of calls in order.
\<close>

datatype hook_call =
    CallGetConn int64
  | CallConnectStart int64
  | CallConnectDone int64 error
  | CallTLSHandshakeStart int64
  | CallTLSHandshakeDone int64 error
  | CallGotConn int64 GotConnInfo
  | CallWroteRequest int64 WroteRequestInfo
  | CallGotFirstResponseByte int64

fun call :: "hook_call \<Rightarrow> Tracer \<Rightarrow> Tracer" where
  "call (CallGetConn now) t = GetConn now t"
| "call (CallConnectStart now) t = ConnectStart now t"
| "call (CallConnectDone now err) t = ConnectDone now err t"
| "call (CallTLSHandshakeStart now) t = TLSHandshakeStart now t"
| "call (CallTLSHandshakeDone now err) t = TLSHandshakeDone now err t"
| "call (CallGotConn now info) t = GotConn now info t"
| "call (CallWroteRequest now info) t = WroteRequest now info t"
| "call (CallGotFirstResponseByte now) t = GotFirstResponseByte now t"

definition calls :: "hook_call list \<Rightarrow> Tracer \<Rightarrow> Tracer" where
  "calls cs t = fold call cs t"

subsection \<open>Scenarios\<close>

text \<open>
  The non-nil error, if any, that the transport passes with one call of a hook.
  Only the hooks ConnectDone, TLSHandshakeDone and WroteRequest take an error.
\<close>

fun reported_errors :: "hook_call \<Rightarrow> error list" where
  "reported_errors (CallConnectDone now err) = (if err \<noteq> None then [err] else [])"
| "reported_errors (CallTLSHandshakeDone now err) = (if err \<noteq> None then [err] else [])"
| "reported_errors (CallWroteRequest now info) = (if Err info \<noteq> None then [Err info] else [])"
| "reported_errors (CallGetConn now) = []"
| "reported_errors (CallConnectStart now) = []"
| "reported_errors (CallTLSHandshakeStart now) = []"
| "reported_errors (CallGotConn now info) = []"
| "reported_errors (CallGotFirstResponseByte now) = []"

text \<open>
  Scenario A of the spec, run on the code: a plaintext request over a fresh
  connection whose first hook reads the clock at \<open>t0\<close>. Times are nanoseconds,
  so 10ms is 10000000. \<open>Done\<close> runs at the instant 60ms after \<open>t0\<close>.
\<close>

definition scenario_A :: "int64 \<Rightarrow> Trail" where
  "scenario_A t0 =
     Done (sint t0 + 60000000)
       (calls [CallGetConn t0,
               CallConnectStart t0,
               CallConnectDone (t0 + 10000000) None,
               CallGotConn (t0 + 10000000)
                 \<lparr>Conn = \<lparr>RemoteAddr = Some ''192.0.2.1:80''\<rparr>, Reused = False,
                  WasIdle = False, IdleTime = 0\<rparr>,
               CallWroteRequest (t0 + 11000000) \<lparr>Err = None\<rparr>,
               CallGotFirstResponseByte (t0 + 50000000)]
          zero_Tracer)"

text \<open>
  The same request when the one call of ConnectDone is missing: the state of the
  tracer before \<open>Done\<close>.
\<close>

definition scenario_A_without_ConnectDone :: "int64 \<Rightarrow> Tracer" where
  "scenario_A_without_ConnectDone t0 =
     calls [CallGetConn t0,
            CallConnectStart t0,
            CallGotConn (t0 + 10000000)
              \<lparr>Conn = \<lparr>RemoteAddr = Some ''192.0.2.1:80''\<rparr>, Reused = False,
               WasIdle = False, IdleTime = 0\<rparr>,
            CallWroteRequest (t0 + 11000000) \<lparr>Err = None\<rparr>,
            CallGotFirstResponseByte (t0 + 50000000)]
       zero_Tracer"

text \<open>
  A request written on a connection that the transport hands over as not reused
  without having reported a dial: GetConn, GotConn, WroteRequest and nothing else.
\<close>

definition write_without_dial :: "int64 \<Rightarrow> Tracer" where
  "write_without_dial t0 =
     calls [CallGetConn t0,
            CallGotConn (t0 + 10000000)
              \<lparr>Conn = \<lparr>RemoteAddr = Some ''192.0.2.1:80''\<rparr>, Reused = False,
               WasIdle = False, IdleTime = 0\<rparr>,
            CallWroteRequest (t0 + 11000000) \<lparr>Err = None\<rparr>]
       zero_Tracer"

section \<open>Basic facts\<close>

lemmas hook_defs = GetConn_def ConnectStart_def ConnectDone_def TLSHandshakeStart_def
  TLSHandshakeDone_def GotConn_def WroteRequest_def GotFirstResponseByte_def
  addError_def CompareAndSwapInt64_def Let_def

subsection \<open>The fields of the Trail that Done returns\<close>

lemma Done_Blocked:
  "Blocked (Done dn t) =
     (if gotConn t \<noteq> 0 \<and> getConn t \<noteq> 0 then gotConn t - getConn t else 0)"
  by (simp add: Done_def Let_def)

lemma Done_Connecting:
  "Connecting (Done dn t) =
     (if connectDone t \<noteq> 0 \<and> connectStart t \<noteq> 0 then connectDone t - connectStart t else 0)"
  by (simp add: Done_def Let_def)

lemma Done_TLSHandshaking:
  "TLSHandshaking (Done dn t) =
     (if tlsHandshakeDone t \<noteq> 0 \<and> tlsHandshakeStart t \<noteq> 0
      then tlsHandshakeDone t - tlsHandshakeStart t else 0)"
  by (simp add: Done_def Let_def)

lemma Done_Sending:
  "Sending (Done dn t) =
     (if wroteRequest t = 0 then 0
      else if tlsHandshakeDone t \<noteq> 0 then wroteRequest t - tlsHandshakeDone t
      else wroteRequest t - connectDone t)"
  by (simp add: Done_def Let_def)

lemma Done_Waiting:
  "Waiting (Done dn t) =
     (if wroteRequest t \<noteq> 0 \<and> gotFirstResponseByte t \<noteq> 0
      then gotFirstResponseByte t - wroteRequest t else 0)"
  by (simp add: Done_def Let_def)

lemma Done_Receiving:
  "Receiving (Done dn t) =
     (if gotFirstResponseByte t \<noteq> 0
      then time_Sub dn (time_Unix 0 (gotFirstResponseByte t)) else 0)"
  by (simp add: Done_def Let_def)

lemma Done_EndTime: "EndTime (Done dn t) = dn"
  by (simp add: Done_def Let_def)

lemma Done_Duration:
  "Duration (Done dn t) = Sending (Done dn t) + Waiting (Done dn t) + Receiving (Done dn t)"
  by (simp add: Done_def Let_def)

lemma Done_StartTime:
  "StartTime (Done dn t) = time_Add dn (- Duration (Done dn t))"
  by (simp add: Done_def Let_def)

lemma Done_zero_Tracer:
  "Done dn zero_Tracer =
     \<lparr>StartTime = dn, EndTime = dn, Duration = 0, Blocked = 0, Connecting = 0,
      TLSHandshaking = 0, Sending = 0, Waiting = 0, Receiving = 0, ConnReused = False,
      ConnRemoteAddr = None\<rparr>"
  by (simp add: Done_def zero_Tracer_def time_Add_def)

subsection \<open>Signed reading of int64 arithmetic\<close>

lemma sint_uminus_int64:
  fixes d :: int64
  assumes "d \<noteq> - 9223372036854775808"
  shows "sint (- d) = - sint d"
proof -
  have lo: "- 9223372036854775808 \<le> sint d"
    using sint_ge [of d] by simp
  have hi: "sint d < 9223372036854775808"
    using sint_lt [of d] by simp
  have ne: "sint d \<noteq> - 9223372036854775808"
  proof
    assume "sint d = - 9223372036854775808"
    then have "(word_of_int (sint d) :: int64) = word_of_int (- 9223372036854775808)"
      by simp
    then have "d = - 9223372036854775808"
      by simp
    with assms show False by simp
  qed
  have "sint (- d) = signed_take_bit 63 (- sint d)"
    by (simp add: sint_word_ariths)
  also have "\<dots> = - sint d"
    using lo hi ne by (intro signed_take_bit_int_eq_self) auto
  finally show ?thesis .
qed

lemma sint_plus_int64:
  fixes a k :: int64
  assumes "0 < sint a" and "0 \<le> sint k" and "sint a + sint k < 9223372036854775808"
  shows "sint (a + k) = sint a + sint k"
proof -
  have "sint (a + k) = signed_take_bit 63 (sint a + sint k)"
    by (simp add: sint_word_ariths)
  also have "\<dots> = sint a + sint k"
    using assms by (intro signed_take_bit_int_eq_self) auto
  finally show ?thesis .
qed

lemma plus_ne_0_int64:
  fixes a k :: int64
  assumes "0 < sint a" and "0 \<le> sint k" and "sint a + sint k < 9223372036854775808"
  shows "a + k \<noteq> 0"
proof
  assume "a + k = 0"
  then have "sint (a + k) = 0" by simp
  with sint_plus_int64 [OF assms] assms show False by simp
qed

lemma sint_minus_int64:
  fixes a b :: int64
  assumes "0 \<le> sint b" and "sint b \<le> sint a"
  shows "sint (a - b) = sint a - sint b"
proof -
  have hi: "sint a < 9223372036854775808"
    using sint_lt [of a] by simp
  have "sint (a - b) = signed_take_bit 63 (sint a - sint b)"
    by (simp add: sint_word_ariths)
  also have "\<dots> = sint a - sint b"
    using assms hi by (intro signed_take_bit_int_eq_self) auto
  finally show ?thesis .
qed

lemma time_Sub_nonneg:
  assumes "u \<le> t"
  shows "0 \<le> sint (time_Sub t u)"
proof -
  have "sint (word_of_int (t - u) :: int64) = t - u"
    if "t - u \<le> 9223372036854775807"
  proof -
    have "sint (word_of_int (t - u) :: int64) = signed_take_bit (LENGTH(64) - 1) (t - u)"
      by (rule sint_sbintrunc')
    also have "\<dots> = signed_take_bit 63 (t - u)"
      by simp
    also have "\<dots> = t - u"
      using that assms by (intro signed_take_bit_int_eq_self) auto
    finally show ?thesis .
  qed
  then show ?thesis
    using assms by (simp add: time_Sub_def maxDuration_def minDuration_def)
qed

subsection \<open>Sequences of calls\<close>

lemma calls_Nil: "calls [] t = t"
  by (simp add: calls_def)

lemma calls_Cons: "calls (c # cs) t = calls cs (call c t)"
  by (simp add: calls_def)

text \<open>
  The three fields written by compare-and-swap keep a non-zero content through
  every hook: the only writes to them are swaps from 0.
\<close>

lemma call_connectStart_set:
  "connectStart t \<noteq> 0 \<Longrightarrow> connectStart (call c t) = connectStart t"
  by (cases c) (simp_all add: hook_defs)

lemma call_connectDone_set:
  "connectDone t \<noteq> 0 \<Longrightarrow> connectDone (call c t) = connectDone t"
  by (cases c) (simp_all add: hook_defs)

lemma call_wroteRequest_set:
  "wroteRequest t \<noteq> 0 \<Longrightarrow> wroteRequest (call c t) = wroteRequest t"
  by (cases c) (simp_all add: hook_defs)

lemma calls_connectStart_set:
  "connectStart t \<noteq> 0 \<Longrightarrow> connectStart (calls cs t) = connectStart t"
proof (induction cs arbitrary: t)
  case Nil
  show ?case by (simp add: calls_Nil)
next
  case (Cons c cs)
  have "connectStart (call c t) = connectStart t"
    using Cons.prems by (rule call_connectStart_set)
  with Cons show ?case by (simp add: calls_Cons)
qed

lemma calls_connectDone_set:
  "connectDone t \<noteq> 0 \<Longrightarrow> connectDone (calls cs t) = connectDone t"
proof (induction cs arbitrary: t)
  case Nil
  show ?case by (simp add: calls_Nil)
next
  case (Cons c cs)
  have "connectDone (call c t) = connectDone t"
    using Cons.prems by (rule call_connectDone_set)
  with Cons show ?case by (simp add: calls_Cons)
qed

lemma calls_wroteRequest_set:
  "wroteRequest t \<noteq> 0 \<Longrightarrow> wroteRequest (calls cs t) = wroteRequest t"
proof (induction cs arbitrary: t)
  case Nil
  show ?case by (simp add: calls_Nil)
next
  case (Cons c cs)
  have "wroteRequest (call c t) = wroteRequest t"
    using Cons.prems by (rule call_wroteRequest_set)
  with Cons show ?case by (simp add: calls_Cons)
qed

lemma call_protoErrors:
  "protoErrors (call c t) = protoErrors t @ reported_errors c"
  by (cases c) (simp_all add: hook_defs)

lemma calls_protoErrors:
  "protoErrors (calls cs t) = protoErrors t @ concat (map reported_errors cs)"
proof (induction cs arbitrary: t)
  case Nil
  show ?case by (simp add: calls_Nil)
next
  case (Cons c cs)
  show ?case by (simp add: calls_Cons Cons.IH call_protoErrors)
qed

lemma scenario_A_state:
  "calls [CallGetConn t0,
          CallConnectStart t0,
          CallConnectDone (t0 + 10000000) None,
          CallGotConn (t0 + 10000000)
            \<lparr>Conn = \<lparr>RemoteAddr = Some ''192.0.2.1:80''\<rparr>, Reused = False,
             WasIdle = False, IdleTime = 0\<rparr>,
          CallWroteRequest (t0 + 11000000) \<lparr>Err = None\<rparr>,
          CallGotFirstResponseByte (t0 + 50000000)]
     zero_Tracer =
   \<lparr>getConn = t0, connectStart = t0, connectDone = t0 + 10000000, tlsHandshakeStart = 0,
    tlsHandshakeDone = 0, gotConn = t0 + 10000000, wroteRequest = t0 + 11000000,
    gotFirstResponseByte = t0 + 50000000,
    connReused = False, connRemoteAddr = Some ''192.0.2.1:80'', protoErrors = []\<rparr>"
  by (simp add: calls_def hook_defs zero_Tracer_def)

subsection \<open>What holds of every phase\<close>

text \<open>
  A phase is zero when the event that its guard in \<open>Done\<close> tests was not
  observed. Sending is guarded by request-written alone.
\<close>

lemma Done_unobserved_phase_zero:
  "(gotConn t = 0 \<or> getConn t = 0 \<longrightarrow> Blocked (Done dn t) = 0)
   \<and> (connectDone t = 0 \<or> connectStart t = 0 \<longrightarrow> Connecting (Done dn t) = 0)
   \<and> (tlsHandshakeDone t = 0 \<or> tlsHandshakeStart t = 0 \<longrightarrow> TLSHandshaking (Done dn t) = 0)
   \<and> (wroteRequest t = 0 \<longrightarrow> Sending (Done dn t) = 0)
   \<and> (wroteRequest t = 0 \<or> gotFirstResponseByte t = 0 \<longrightarrow> Waiting (Done dn t) = 0)
   \<and> (gotFirstResponseByte t = 0 \<longrightarrow> Receiving (Done dn t) = 0)"
  by (simp add: Done_Blocked Done_Connecting Done_TLSHandshaking Done_Sending Done_Waiting
      Done_Receiving)

text \<open>
  With clock readings that are not negative and do not decrease along the
  lifecycle (each event that is set read the clock no earlier than the event
  before it, and \<open>Done\<close> no earlier than first-response-byte), no phase is
  negative. An unset field is 0 and so satisfies the first six hypotheses.
\<close>

lemma Done_phases_nonneg:
  assumes "0 \<le> sint (getConn t)" and "0 \<le> sint (connectStart t)"
    and "0 \<le> sint (connectDone t)" and "0 \<le> sint (tlsHandshakeStart t)"
    and "0 \<le> sint (tlsHandshakeDone t)" and "0 \<le> sint (wroteRequest t)"
    and "gotConn t \<noteq> 0 \<Longrightarrow> sint (getConn t) \<le> sint (gotConn t)"
    and "connectDone t \<noteq> 0 \<Longrightarrow> sint (connectStart t) \<le> sint (connectDone t)"
    and "tlsHandshakeDone t \<noteq> 0 \<Longrightarrow> sint (tlsHandshakeStart t) \<le> sint (tlsHandshakeDone t)"
    and "wroteRequest t \<noteq> 0 \<Longrightarrow> sint (connectDone t) \<le> sint (wroteRequest t)"
    and "wroteRequest t \<noteq> 0 \<Longrightarrow> sint (tlsHandshakeDone t) \<le> sint (wroteRequest t)"
    and "gotFirstResponseByte t \<noteq> 0 \<Longrightarrow> sint (wroteRequest t) \<le> sint (gotFirstResponseByte t)"
    and "gotFirstResponseByte t \<noteq> 0 \<Longrightarrow> sint (gotFirstResponseByte t) \<le> dn"
  shows "0 \<le> sint (Blocked (Done dn t)) \<and> 0 \<le> sint (Connecting (Done dn t))
       \<and> 0 \<le> sint (TLSHandshaking (Done dn t)) \<and> 0 \<le> sint (Sending (Done dn t))
       \<and> 0 \<le> sint (Waiting (Done dn t)) \<and> 0 \<le> sint (Receiving (Done dn t))"
proof -
  have b: "0 \<le> sint (Blocked (Done dn t))"
    using assms(1,7) by (simp add: Done_Blocked sint_minus_int64)
  have c: "0 \<le> sint (Connecting (Done dn t))"
    using assms(2,8) by (simp add: Done_Connecting sint_minus_int64)
  have h: "0 \<le> sint (TLSHandshaking (Done dn t))"
    using assms(4,9) by (simp add: Done_TLSHandshaking sint_minus_int64)
  have s: "0 \<le> sint (Sending (Done dn t))"
    using assms(3,5,10,11) by (simp add: Done_Sending sint_minus_int64)
  have w: "0 \<le> sint (Waiting (Done dn t))"
    using assms(6,12) by (simp add: Done_Waiting sint_minus_int64)
  have r: "0 \<le> sint (Receiving (Done dn t))"
    using assms(13) by (simp add: Done_Receiving time_Sub_nonneg time_Unix_def)
  show ?thesis using b c h s w r by simp
qed

section \<open>The claims\<close>

text \<open>
  C1. The claim: for every recorder state the Trail has
  \<open>Duration == Sending + Waiting + Receiving\<close> exactly, with unobserved phases
  contributing zero. The sum is as claimed in every state (\<open>Done_Duration\<close>, in
  the \<open>int64\<close> arithmetic of the code), and Waiting and Receiving are zero when
  unobserved (\<open>Done_unobserved_phase_zero\<close>). Sending is not: in the run GetConn
  at 1500000000000000000, GotConn (not reused) 10ms later, WroteRequest 11ms
  later, the start of the sending phase (connect-done or tls-done) was never
  observed, nothing was received, and yet Duration is the clock reading of
  WroteRequest, 1500000000011000000 ns, where the claim has 0.
\<close>

theorem Duration_counts_Sending_without_base:
  "connectDone (write_without_dial 1500000000000000000) = 0
   \<and> tlsHandshakeDone (write_without_dial 1500000000000000000) = 0
   \<and> gotFirstResponseByte (write_without_dial 1500000000000000000) = 0
   \<and> Waiting (Done 1500000000060000000 (write_without_dial 1500000000000000000)) = 0
   \<and> Receiving (Done 1500000000060000000 (write_without_dial 1500000000000000000)) = 0
   \<and> Sending (Done 1500000000060000000 (write_without_dial 1500000000000000000))
       = 1500000000011000000
   \<and> Duration (Done 1500000000060000000 (write_without_dial 1500000000000000000))
       = 1500000000011000000"
  by (simp add: Done_Duration Done_Sending Done_Waiting Done_Receiving)
     (simp add: write_without_dial_def calls_def hook_defs zero_Tracer_def)

text \<open>
  C2. The claim: when request-written is set, Sending is request-written minus
  the base (tls-done if set, connect-done otherwise), and Sending is zero when
  the base it needs is unset. The subtraction is as claimed (\<open>Done_Sending\<close>),
  the clamp is not there: \<open>Done\<close> tests request-written only and subtracts
  \<open>connectDone\<close> whether or not it is set. In the run GetConn at
  1500000000000000000, GotConn (not reused) 10ms later, WroteRequest 11ms later,
  neither connect-done nor tls-done is set, and Sending is the clock reading of
  WroteRequest itself, 1500000000011000000 ns, instead of 0.
\<close>

theorem Sending_not_clamped_without_base:
  "wroteRequest (write_without_dial 1500000000000000000) = 1500000000011000000
   \<and> tlsHandshakeDone (write_without_dial 1500000000000000000) = 0
   \<and> connectDone (write_without_dial 1500000000000000000) = 0
   \<and> Sending (Done 1500000000060000000 (write_without_dial 1500000000000000000))
       = 1500000000011000000"
  by (simp add: Done_Sending)
     (simp add: write_without_dial_def calls_def hook_defs zero_Tracer_def)

text \<open>
  C3. The claim: whichever single event is missing, every phase of the Trail is
  non-negative and a phase whose required events were not observed is exactly
  zero, and \<open>Done\<close> always returns a Trail. \<open>Done\<close> is a total function, and
  \<open>Done_unobserved_phase_zero\<close> and \<open>Done_phases_nonneg\<close> give the rest for
  every phase but one: when connect-done is the missing event of scenario A,
  Sending has lost its base and is nevertheless not zero. It is the clock
  reading of WroteRequest, and Duration with it is the clock reading of \<open>Done\<close>.
\<close>

theorem Sending_nonzero_when_ConnectDone_missing:
  "connectDone (scenario_A_without_ConnectDone 1500000000000000000) = 0
   \<and> tlsHandshakeDone (scenario_A_without_ConnectDone 1500000000000000000) = 0
   \<and> Sending (Done 1500000000060000000 (scenario_A_without_ConnectDone 1500000000000000000))
       = 1500000000011000000
   \<and> Duration (Done 1500000000060000000 (scenario_A_without_ConnectDone 1500000000000000000))
       = 1500000000060000000"
  by (simp add: Done_Duration Done_Sending Done_Waiting Done_Receiving)
     (simp add: scenario_A_without_ConnectDone_def calls_def hook_defs zero_Tracer_def
       time_Sub_def time_Unix_def maxDuration_def minDuration_def)

text \<open>
  C4. If GotConn reports a reused connection while connect-started and
  connect-done are still unset, both fields become the clock reading of GotConn,
  and the Trail that \<open>Done\<close> returns has Connecting equal to 0: at once, and
  (the reading being a timestamp, that is not 0) after any further hook calls.
\<close>

theorem GotConn_reused_Connecting_zero:
  assumes "connectStart t = 0" and "connectDone t = 0" and "Reused info"
  shows "connectStart (GotConn now info t) = now
       \<and> connectDone (GotConn now info t) = now
       \<and> Connecting (Done dn (GotConn now info t)) = 0
       \<and> (now \<noteq> 0 \<longrightarrow> Connecting (Done dn (calls cs (GotConn now info t))) = 0)"
proof -
  have s: "connectStart (GotConn now info t) = now"
    using assms by (simp add: hook_defs)
  have d: "connectDone (GotConn now info t) = now"
    using assms by (simp add: hook_defs)
  have later: "Connecting (Done dn (calls cs (GotConn now info t))) = 0" if "now \<noteq> 0"
    using that s d by (simp add: Done_Connecting calls_connectStart_set calls_connectDone_set)
  show ?thesis using s d later by (simp add: Done_Connecting)
qed

theorem GotConn_reused_Connecting_zero_witness:
  "connectStart (GetConn 1000 zero_Tracer) = 0 \<and> connectDone (GetConn 1000 zero_Tracer) = 0
   \<and> Reused \<lparr>Conn = \<lparr>RemoteAddr = Some ''192.0.2.1:80''\<rparr>, Reused = True, WasIdle = True,
        IdleTime = 0\<rparr>
   \<and> (1000 :: int64) \<noteq> 0
   \<and> Connecting (Done 2000 (calls [CallWroteRequest 1001 \<lparr>Err = None\<rparr>]
        (GotConn 1000
          \<lparr>Conn = \<lparr>RemoteAddr = Some ''192.0.2.1:80''\<rparr>, Reused = True, WasIdle = True,
           IdleTime = 0\<rparr>
          (GetConn 1000 zero_Tracer)))) = 0"
  using GotConn_reused_Connecting_zero [of "GetConn 1000 zero_Tracer"
      "\<lparr>Conn = \<lparr>RemoteAddr = Some ''192.0.2.1:80''\<rparr>, Reused = True, WasIdle = True,
        IdleTime = 0\<rparr>"
      1000 2000 "[CallWroteRequest 1001 \<lparr>Err = None\<rparr>]"]
  by (simp add: GetConn_def zero_Tracer_def)

text \<open>
  C5. For connect-started, connect-done and request-written the first call's
  timestamp wins. A call of the hook stores its clock reading in a field that is
  unset and leaves a field that is set alone. So after a first call that read
  the clock at \<open>a\<close> (a clock reading, hence not 0, the value that means unset),
  a second call at another time \<open>b\<close> leaves the stored timestamp as the first
  call left it, so does every later sequence of hook calls, and the derived
  Connecting phase is the same with the duplicate call as without it. Each of
  the three fields goes from unset to set at most once.
\<close>

theorem first_write_wins:
  assumes "a \<noteq> 0"
  shows "connectStart (ConnectStart a t) = (if connectStart t = 0 then a else connectStart t)
   \<and> connectDone (ConnectDone a e1 t) = (if connectDone t = 0 then a else connectDone t)
   \<and> wroteRequest (WroteRequest a i1 t) = (if wroteRequest t = 0 then a else wroteRequest t)
   \<and> connectStart (ConnectStart b (ConnectStart a t)) = connectStart (ConnectStart a t)
   \<and> connectDone (ConnectDone b e2 (ConnectDone a e1 t)) = connectDone (ConnectDone a e1 t)
   \<and> wroteRequest (WroteRequest b i2 (WroteRequest a i1 t)) = wroteRequest (WroteRequest a i1 t)
   \<and> Connecting (Done dn (ConnectDone c e2 (ConnectStart b (ConnectStart a t))))
       = Connecting (Done dn (ConnectDone c e2 (ConnectStart a t)))
   \<and> connectStart (calls cs (ConnectStart a t)) = connectStart (ConnectStart a t)
   \<and> connectDone (calls cs (ConnectDone a e1 t)) = connectDone (ConnectDone a e1 t)
   \<and> wroteRequest (calls cs (WroteRequest a i1 t)) = wroteRequest (WroteRequest a i1 t)"
proof -
  have s: "connectStart (ConnectStart a t) \<noteq> 0"
    using assms by (simp add: hook_defs)
  have d: "connectDone (ConnectDone a e1 t) \<noteq> 0"
    using assms by (simp add: hook_defs)
  have w: "wroteRequest (WroteRequest a i1 t) \<noteq> 0"
    using assms by (simp add: hook_defs)
  have 1: "connectStart (ConnectStart a t) = (if connectStart t = 0 then a else connectStart t)"
    by (simp add: hook_defs)
  have 2: "connectDone (ConnectDone a e1 t) = (if connectDone t = 0 then a else connectDone t)"
    by (simp add: hook_defs)
  have 3: "wroteRequest (WroteRequest a i1 t) = (if wroteRequest t = 0 then a else wroteRequest t)"
    by (simp add: hook_defs)
  have same: "ConnectStart b (ConnectStart a t) = ConnectStart a t"
    using assms by (simp add: hook_defs)
  have 4: "connectStart (ConnectStart b (ConnectStart a t)) = connectStart (ConnectStart a t)"
    by (simp only: same)
  have 5: "connectDone (ConnectDone b e2 (ConnectDone a e1 t)) = connectDone (ConnectDone a e1 t)"
    using calls_connectDone_set [OF d, of "[CallConnectDone b e2]"]
    by (simp add: calls_Cons calls_Nil)
  have 6: "wroteRequest (WroteRequest b i2 (WroteRequest a i1 t))
      = wroteRequest (WroteRequest a i1 t)"
    using calls_wroteRequest_set [OF w, of "[CallWroteRequest b i2]"]
    by (simp add: calls_Cons calls_Nil)
  have 7: "Connecting (Done dn (ConnectDone c e2 (ConnectStart b (ConnectStart a t))))
      = Connecting (Done dn (ConnectDone c e2 (ConnectStart a t)))"
    by (simp only: same)
  show ?thesis
    using 1 2 3 4 5 6 7 calls_connectStart_set [OF s] calls_connectDone_set [OF d]
      calls_wroteRequest_set [OF w]
    by simp
qed

theorem first_write_wins_witness:
  "(1000 :: int64) \<noteq> 0
   \<and> connectStart (ConnectStart 1005 (ConnectStart 1000 zero_Tracer)) = 1000
   \<and> connectDone (ConnectDone 1005 (Some ''timeout'') (ConnectDone 1000 None zero_Tracer)) = 1000
   \<and> wroteRequest (WroteRequest 1005 \<lparr>Err = None\<rparr> (WroteRequest 1000 \<lparr>Err = None\<rparr> zero_Tracer))
       = 1000
   \<and> Connecting (Done 2000
        (ConnectDone 1010 (Some ''timeout'') (ConnectStart 1005 (ConnectStart 1000 zero_Tracer)))) = 10
   \<and> connectStart (calls [CallConnectStart 1005, CallConnectDone 1010 None,
        CallGotConn 1011 \<lparr>Conn = \<lparr>RemoteAddr = Some ''192.0.2.1:80''\<rparr>, Reused = True,
          WasIdle = False, IdleTime = 0\<rparr>,
        CallConnectStart 1012, CallWroteRequest 1013 \<lparr>Err = None\<rparr>]
        (ConnectStart 1000 zero_Tracer)) = 1000
   \<and> connectDone (calls [CallConnectStart 1005, CallConnectDone 1010 None,
        CallGotConn 1011 \<lparr>Conn = \<lparr>RemoteAddr = Some ''192.0.2.1:80''\<rparr>, Reused = True,
          WasIdle = False, IdleTime = 0\<rparr>,
        CallConnectStart 1012, CallWroteRequest 1013 \<lparr>Err = None\<rparr>]
        (ConnectDone 1000 None zero_Tracer)) = 1000
   \<and> wroteRequest (calls [CallConnectStart 1005, CallConnectDone 1010 None,
        CallGotConn 1011 \<lparr>Conn = \<lparr>RemoteAddr = Some ''192.0.2.1:80''\<rparr>, Reused = True,
          WasIdle = False, IdleTime = 0\<rparr>,
        CallConnectStart 1012, CallWroteRequest 1013 \<lparr>Err = None\<rparr>]
        (WroteRequest 1000 \<lparr>Err = None\<rparr> zero_Tracer)) = 1000"
  using first_write_wins [of 1000 zero_Tracer None "\<lparr>Err = None\<rparr>" 1005 "Some ''timeout''"
      "\<lparr>Err = None\<rparr>" 2000 1010
      "[CallConnectStart 1005, CallConnectDone 1010 None,
        CallGotConn 1011 \<lparr>Conn = \<lparr>RemoteAddr = Some ''192.0.2.1:80''\<rparr>, Reused = True,
          WasIdle = False, IdleTime = 0\<rparr>,
        CallConnectStart 1012, CallWroteRequest 1013 \<lparr>Err = None\<rparr>]"]
  by (simp add: hook_defs zero_Tracer_def Done_Connecting)


text \<open>
  C6. For every recorder state the Trail that \<open>Done\<close> returns has
  \<open>StartTime == EndTime - Duration\<close>, computed as the code computes it,
  \<open>EndTime.Add(-Duration)\<close> with the \<open>int64\<close> negation. On the line of instants
  this is EndTime minus the signed value of Duration, for every Duration but the
  minimum \<open>int64\<close>, whose negation wraps to itself. When no event fired, all six
  phases and Duration are zero and StartTime equals EndTime.
\<close>

theorem Done_StartTime_EndTime:
  "StartTime (Done dn t) = time_Add (EndTime (Done dn t)) (- Duration (Done dn t))
   \<and> (Duration (Done dn t) \<noteq> minDuration \<longrightarrow>
        StartTime (Done dn t) = EndTime (Done dn t) - sint (Duration (Done dn t)))
   \<and> Blocked (Done dn zero_Tracer) = 0 \<and> Connecting (Done dn zero_Tracer) = 0
   \<and> TLSHandshaking (Done dn zero_Tracer) = 0 \<and> Sending (Done dn zero_Tracer) = 0
   \<and> Waiting (Done dn zero_Tracer) = 0 \<and> Receiving (Done dn zero_Tracer) = 0
   \<and> Duration (Done dn zero_Tracer) = 0
   \<and> StartTime (Done dn zero_Tracer) = EndTime (Done dn zero_Tracer)"
proof -
  have a: "StartTime (Done dn t) = time_Add (EndTime (Done dn t)) (- Duration (Done dn t))"
    by (simp add: Done_StartTime Done_EndTime)
  have b: "StartTime (Done dn t) = EndTime (Done dn t) - sint (Duration (Done dn t))"
    if "Duration (Done dn t) \<noteq> minDuration"
    using that by (simp add: a time_Add_def minDuration_def sint_uminus_int64)
  show ?thesis using a b by (simp add: Done_zero_Tracer)
qed

theorem Done_StartTime_EndTime_witness:
  "Duration (Done 2000 (WroteRequest 1011 \<lparr>Err = None\<rparr> (ConnectDone 1010 None zero_Tracer)))
     \<noteq> minDuration
   \<and> Duration (Done 2000 (WroteRequest 1011 \<lparr>Err = None\<rparr> (ConnectDone 1010 None zero_Tracer)))
     = 1
   \<and> EndTime (Done 2000 (WroteRequest 1011 \<lparr>Err = None\<rparr> (ConnectDone 1010 None zero_Tracer)))
     = 2000
   \<and> StartTime (Done 2000 (WroteRequest 1011 \<lparr>Err = None\<rparr> (ConnectDone 1010 None zero_Tracer)))
     = 1999"
  using Done_StartTime_EndTime
    [of 2000 "WroteRequest 1011 \<lparr>Err = None\<rparr> (ConnectDone 1010 None zero_Tracer)"]
  by (simp add: Done_def hook_defs zero_Tracer_def minDuration_def)

text \<open>
  C7. A non-nil error passed to ConnectDone, TLSHandshakeDone or WroteRequest is
  appended to \<open>protoErrors\<close>, also when the field of the hook is already set
  and the swap of the timestamp does nothing. No hook has a failing branch
  (each is a total function from tracer to tracer), and after any sequence of
  hook calls \<open>protoErrors\<close> is what it was before, followed by the reported
  errors in the order of the calls.
\<close>

theorem errors_collected_in_call_order:
  "(err \<noteq> None \<longrightarrow>
      protoErrors (ConnectDone now err t) = protoErrors t @ [err]
      \<and> (connectDone t \<noteq> 0 \<longrightarrow> connectDone (ConnectDone now err t) = connectDone t))
   \<and> (err \<noteq> None \<longrightarrow> protoErrors (TLSHandshakeDone now err t) = protoErrors t @ [err])
   \<and> (Err info \<noteq> None \<longrightarrow>
      protoErrors (WroteRequest now info t) = protoErrors t @ [Err info]
      \<and> (wroteRequest t \<noteq> 0 \<longrightarrow> wroteRequest (WroteRequest now info t) = wroteRequest t))
   \<and> protoErrors (calls cs t) = protoErrors t @ concat (map reported_errors cs)"
  by (simp add: calls_protoErrors) (simp add: hook_defs)

theorem errors_collected_in_call_order_witness:
  "Some ''connection refused'' \<noteq> None \<and> Err \<lparr>Err = Some ''broken pipe''\<rparr> \<noteq> None
   \<and> connectDone (ConnectDone 1010 None zero_Tracer) \<noteq> 0
   \<and> connectDone (ConnectDone 1020 (Some ''connection refused'')
        (ConnectDone 1010 None zero_Tracer)) = 1010
   \<and> protoErrors (ConnectDone 1020 (Some ''connection refused'')
        (ConnectDone 1010 None zero_Tracer)) = [Some ''connection refused'']
   \<and> protoErrors (calls [CallWroteRequest 1030 \<lparr>Err = Some ''broken pipe''\<rparr>,
                          CallWroteRequest 1040 \<lparr>Err = Some ''EOF''\<rparr>]
        (ConnectDone 1010 None zero_Tracer)) = [Some ''broken pipe'', Some ''EOF'']"
  using errors_collected_in_call_order [of "Some ''connection refused''" 1020
      "ConnectDone 1010 None zero_Tracer" "\<lparr>Err = Some ''broken pipe''\<rparr>"
      "[CallWroteRequest 1030 \<lparr>Err = Some ''broken pipe''\<rparr>,
        CallWroteRequest 1040 \<lparr>Err = Some ''EOF''\<rparr>]"]
  by (simp add: hook_defs zero_Tracer_def)

text \<open>
  C8. For every Trail and tag mapping, \<open>Samples\<close> returns the eight samples
  request count (value 1), request duration, blocked, connecting, sending,
  waiting, receiving, TLS handshaking, in this order, each with the Trail's
  EndTime as its time and with the given tag mapping. \<open>Samples\<close> is a function
  of the Trail and the tags and has no state to change.
\<close>

theorem Samples_fixed_sequence:
  "Samples D tr tags =
     [\<lparr>Metric = HTTPReqs, Time = EndTime tr, Tags = tags, Value = 1\<rparr>,
      \<lparr>Metric = HTTPReqDuration, Time = EndTime tr, Tags = tags, Value = D (Duration tr)\<rparr>,
      \<lparr>Metric = HTTPReqBlocked, Time = EndTime tr, Tags = tags, Value = D (Blocked tr)\<rparr>,
      \<lparr>Metric = HTTPReqConnecting, Time = EndTime tr, Tags = tags, Value = D (Connecting tr)\<rparr>,
      \<lparr>Metric = HTTPReqSending, Time = EndTime tr, Tags = tags, Value = D (Sending tr)\<rparr>,
      \<lparr>Metric = HTTPReqWaiting, Time = EndTime tr, Tags = tags, Value = D (Waiting tr)\<rparr>,
      \<lparr>Metric = HTTPReqReceiving, Time = EndTime tr, Tags = tags, Value = D (Receiving tr)\<rparr>,
      \<lparr>Metric = HTTPReqTLSHandshaking, Time = EndTime tr, Tags = tags,
        Value = D (TLSHandshaking tr)\<rparr>]
   \<and> length (Samples D tr tags) = 8
   \<and> map Metric (Samples D tr tags) =
       [HTTPReqs, HTTPReqDuration, HTTPReqBlocked, HTTPReqConnecting, HTTPReqSending,
        HTTPReqWaiting, HTTPReqReceiving, HTTPReqTLSHandshaking]
   \<and> map Value (Samples D tr tags) =
       [1, D (Duration tr), D (Blocked tr), D (Connecting tr), D (Sending tr),
        D (Waiting tr), D (Receiving tr), D (TLSHandshaking tr)]
   \<and> map Time (Samples D tr tags) = replicate 8 (EndTime tr)
   \<and> map Tags (Samples D tr tags) = replicate 8 tags"
  by (simp add: Samples_def numeral_eq_Suc)

text \<open>
  C9 (amended). In scenario A, for a first clock reading \<open>t0\<close> after the Unix
  epoch and with \<open>t0 + 60ms\<close> still an \<open>int64\<close>, the Trail has blocked = 10ms,
  connecting = 10ms, tlsHandshaking = 0, sending = 1ms, waiting = 39ms,
  receiving = 10ms and duration = 50ms. Blocked is connection-obtained minus
  connection-requested, and in the scenario these are 10ms apart.
\<close>

theorem scenario_A_trail:
  fixes t0 :: int64
  assumes "0 < sint t0" and "sint t0 + 60000000 < 9223372036854775808"
  shows "Blocked (scenario_A t0) = 10000000
       \<and> Connecting (scenario_A t0) = 10000000
       \<and> TLSHandshaking (scenario_A t0) = 0
       \<and> Sending (scenario_A t0) = 1000000
       \<and> Waiting (scenario_A t0) = 39000000
       \<and> Receiving (scenario_A t0) = 10000000
       \<and> Duration (scenario_A t0) = 50000000"
proof -
  have n0: "t0 \<noteq> 0" using assms(1) by auto
  have n10: "t0 + 10000000 \<noteq> 0"
    using plus_ne_0_int64 [of t0 10000000] assms by simp
  have n11: "t0 + 11000000 \<noteq> 0"
    using plus_ne_0_int64 [of t0 11000000] assms by simp
  have n50: "t0 + 50000000 \<noteq> 0"
    using plus_ne_0_int64 [of t0 50000000] assms by simp
  have s50: "sint (t0 + 50000000) = sint t0 + 50000000"
    using sint_plus_int64 [of t0 50000000] assms by simp
  have r: "time_Sub (sint t0 + 60000000) (time_Unix 0 (t0 + 50000000)) = 10000000"
    by (simp add: time_Sub_def time_Unix_def s50 maxDuration_def minDuration_def)
  show ?thesis
    unfolding scenario_A_def scenario_A_state
    using n0 n10 n11 n50 r
    by (simp add: Done_Blocked Done_Connecting Done_TLSHandshaking Done_Sending Done_Waiting
        Done_Receiving Done_Duration)
qed

theorem scenario_A_trail_witness:
  "0 < sint (1500000000000000000 :: int64)
   \<and> sint (1500000000000000000 :: int64) + 60000000 < 9223372036854775808
   \<and> Blocked (scenario_A 1500000000000000000) = 10000000
   \<and> Connecting (scenario_A 1500000000000000000) = 10000000
   \<and> Sending (scenario_A 1500000000000000000) = 1000000
   \<and> Duration (scenario_A 1500000000000000000) = 50000000"
  using scenario_A_trail [of 1500000000000000000]
  by simp

text \<open>
  The claim as stated has blocked = 0. With \<open>t0\<close> at 1500000000000000000 the
  code returns blocked = 10ms.
\<close>

theorem scenario_A_Blocked_counterexample:
  "Blocked (scenario_A 1500000000000000000) = 10000000
   \<and> Blocked (scenario_A 1500000000000000000) \<noteq> 0"
  by (simp add: Done_Blocked scenario_A_def)
     (simp add: calls_def hook_defs zero_Tracer_def)

text \<open>
  C10. The hooks GetConn, TLSHandshakeStart, TLSHandshakeDone, GotConn and
  GotFirstResponseByte store their clock reading whatever the field holds, so
  after a repeated call the field holds the reading of the last call, where the
  fields written by compare-and-swap keep that of the first.
\<close>

theorem single_call_hooks_last_write_wins:
  "getConn (GetConn b t) = b
   \<and> tlsHandshakeStart (TLSHandshakeStart b t) = b
   \<and> tlsHandshakeDone (TLSHandshakeDone b e2 t) = b
   \<and> gotConn (GotConn b i2 t) = b
   \<and> gotFirstResponseByte (GotFirstResponseByte b t) = b
   \<and> getConn (GetConn b (GetConn a t)) = b
   \<and> tlsHandshakeStart (TLSHandshakeStart b (TLSHandshakeStart a t)) = b
   \<and> tlsHandshakeDone (TLSHandshakeDone b e2 (TLSHandshakeDone a e1 t)) = b
   \<and> gotConn (GotConn b i2 (GotConn a i1 t)) = b
   \<and> gotFirstResponseByte (GotFirstResponseByte b (GotFirstResponseByte a t)) = b"
  by (simp add: hook_defs)

end
